theory Spec2Isabelle
  imports Main
begin

section \<open>The Helm chart inflation generator\<close>

text \<open>
  A shallow embedding of \<^verbatim>\<open>HelmChartInflationGenerator.go\<close>: the plugin structure, the
  two argument builders, the local-chart check, the version check, \<^verbatim>\<open>Config\<close> and
  \<^verbatim>\<open>Generate\<close>.  Go strings are byte sequences, and so is \<^typ>\<open>string\<close>.  What the
  program does to the outside (the filesystem, the child processes) is recorded in an
  explicit \<open>world\<close> that every effectful function takes and returns.
\<close>

subsection \<open>Go library functions the plugin calls\<close>

text \<open>\<^verbatim>\<open>strings.Join(elems, sep)\<close>.\<close>

fun strings_Join :: "string list \<Rightarrow> string \<Rightarrow> string" where
  "strings_Join [] sep = []"
| "strings_Join [x] sep = x"
| "strings_Join (x # y # ys) sep = x @ sep @ strings_Join (y # ys) sep"

text \<open>
  \<^verbatim>\<open>strings.Split(s, sep)\<close> for a separator of one byte: the pieces between the
  separators, one more than there are separators (so never an empty list; the empty string
  splits into one empty piece, and the first branch of the \<open>case\<close> below is never taken).
\<close>

fun strings_Split :: "string \<Rightarrow> char \<Rightarrow> string list" where
  "strings_Split [] c = [[]]"
| "strings_Split (x # xs) c =
     (if x = c then [] # strings_Split xs c
      else (case strings_Split xs c of
              [] \<Rightarrow> [[x]]
            | piece # pieces \<Rightarrow> (x # piece) # pieces))"

text \<open>
  \<^verbatim>\<open>path.Clean\<close>, on the path's elements: empty elements (doubled slashes) and
  \<^verbatim>\<open>.\<close> are dropped, \<^verbatim>\<open>..\<close> removes the element before it, is dropped at the root
  of a rooted path and is kept at the start of a relative one.  \<open>clean_elems\<close> keeps the
  elements written so far in reverse.
\<close>

fun clean_elems :: "bool \<Rightarrow> string list \<Rightarrow> string list \<Rightarrow> string list" where
  "clean_elems rooted out [] = rev out"
| "clean_elems rooted out (e # es) =
     (if e = [] \<or> e = ''.'' then clean_elems rooted out es
      else if e = ''..'' then
        (case out of
           [] \<Rightarrow> if rooted then clean_elems rooted [] es else clean_elems rooted [''..''] es
         | l # out' \<Rightarrow>
             if l = ''..'' then clean_elems rooted (''..'' # out) es
             else clean_elems rooted out' es)
      else clean_elems rooted (e # out) es)"

definition path_Clean :: "string \<Rightarrow> string" where
  "path_Clean p =
     (if p = [] then ''.''
      else
        let rooted = (hd p = CHR ''/'');
            out = (if rooted then ''/'' else []) @
                  strings_Join (clean_elems rooted [] (strings_Split p (CHR ''/''))) ''/''
        in if out = [] then ''.'' else out)"

text \<open>
  \<^verbatim>\<open>path.Join(elem...)\<close>: empty elements are ignored, the rest are joined with slashes
  and the result is cleaned; when every element is empty the result is the empty string.
\<close>

definition path_Join :: "string list \<Rightarrow> string" where
  "path_Join elem =
     (let es = filter (\<lambda>e. e \<noteq> []) elem
      in if es = [] then [] else path_Clean (strings_Join es ''/''))"

subsection \<open>The plugin\<close>

text \<open>
  The only function value the program ever stores in the field \<^verbatim>\<open>runHelmCommand\<close> is
  the closure that \<^verbatim>\<open>Config\<close> builds; \<open>None\<close> is the nil function of a plugin that was
  never configured.
\<close>

datatype closure = HelmClosure

text \<open>
  Modelled from the spec: the declaration of \<^verbatim>\<open>types.HelmChartArgs\<close> (embedded in the
  plugin) is not part of the source file; its fields are the ones the code reads and the
  options the spec lists (\<^verbatim>\<open>chartName\<close>, \<^verbatim>\<open>chartVersion\<close>, \<^verbatim>\<open>chartRepoURL\<close>,
  \<^verbatim>\<open>chartRepoName\<close>, \<^verbatim>\<open>chartHome\<close>, \<^verbatim>\<open>helmBin\<close>, \<^verbatim>\<open>helmHome\<close>, \<^verbatim>\<open>values\<close>,
  \<^verbatim>\<open>releaseName\<close>, \<^verbatim>\<open>releaseNamespace\<close>, the extra arguments), all strings but the
  last.  The embedded \<^verbatim>\<open>types.ObjectMeta\<close> is written by the YAML decoder only and never
  read, and is left out.  \<open>'h\<close> is the type of the plugin helpers.
\<close>

record 'h plugin =
  helpers :: 'h
  runHelmCommand :: "closure option"
  ChartName :: string
  ChartVersion :: string
  ChartRepoURL :: string
  ChartRepoName :: string
  ChartHome :: string
  HelmBin :: string
  HelmHome :: string
  Values :: string
  ReleaseName :: string
  ReleaseNamespace :: string
  ExtraArgs :: "string list"
  tmpDir :: string

subsection \<open>The argument builders\<close>

definition getTemplateCommandArgs :: "'h plugin \<Rightarrow> string list" where
  "getTemplateCommandArgs p =
     (let args = [''template''];
          args = (if ReleaseName p \<noteq> [] then args @ [ReleaseName p] else args);
          args = args @ [path_Join [ChartHome p, ChartName p]];
          args = (if ReleaseNamespace p \<noteq> [] then args @ [''--namespace'', ReleaseNamespace p]
                  else args);
          args = (if Values p \<noteq> [] then args @ [''--values'', Values p] else args);
          args = args @ ExtraArgs p
      in args)"

definition getPullCommandArgs :: "'h plugin \<Rightarrow> string list" where
  "getPullCommandArgs p =
     (let args = [''pull'', ''--untar'', ''--untardir'', ChartHome p];
          chartName = ChartRepoName p @ ''/'' @ ChartName p;
          args = (if ChartVersion p \<noteq> [] then args @ [''--version'', ChartVersion p] else args);
          (args, chartName) =
             (if ChartRepoURL p \<noteq> [] then (args @ [''--repo'', ChartRepoURL p], ChartName p)
              else (args, chartName));
          args = args @ [chartName]
      in args)"

subsection \<open>The outside world\<close>

text \<open>
  The filesystem maps a path to what is there; the process environment is the list of
  \<^verbatim>\<open>NAME=value\<close> strings of \<^verbatim>\<open>os.Environ()\<close>; the trace records, in order, every
  request the program makes to the operating system.
\<close>

datatype kind = RegularFile | Directory

datatype event =
    MkdirTemp string
  | Stat string
  | Exec string "string list" "string list"
  | RemoveAll string

record world =
  fs :: "string \<rightharpoonup> kind"
  environ :: "string list"
  trace :: "event list"

datatype error = Error string

text \<open>A Go call either returns or panics; deferred calls run in both cases.\<close>

datatype 'a outcome = Return 'a | Panic string

definition bind_outcome ::
  "(world \<Rightarrow> 'a outcome \<times> world) \<Rightarrow> ('a \<Rightarrow> world \<Rightarrow> 'b outcome \<times> world) \<Rightarrow>
   world \<Rightarrow> 'b outcome \<times> world" where
  "bind_outcome m f w =
     (case m w of (Panic msg, w') \<Rightarrow> (Panic msg, w') | (Return a, w') \<Rightarrow> f a w')"

definition return_outcome :: "'a \<Rightarrow> world \<Rightarrow> 'a outcome \<times> world" where
  "return_outcome a w = (Return a, w)"

text \<open>What a child process did: its two output streams, whether \<^verbatim>\<open>cmd.Run()\<close>
  reported an error (it could not start, or exited with a non-zero status), and the
  filesystem it left behind.\<close>

record proc_result =
  proc_stdout :: string
  proc_stderr :: string
  proc_failed :: bool
  proc_fs :: "string \<rightharpoonup> kind"

text \<open>
  The collaborators outside the source file, as parameters: the YAML decoder (it returns
  the plugin as decoded and the decoding error, if any), the operating system's choice of a
  temporary directory name (or its failure), the behaviour of a child process given its
  binary, arguments, environment and the filesystem it starts in, and the resource-map
  factory that parses the rendered bytes.
\<close>

record ('h, 'r) extern =
  yaml_Unmarshal :: "string \<Rightarrow> 'h plugin \<Rightarrow> error option \<times> 'h plugin"
  TempDir :: "world \<Rightarrow> error + string"
  run_process :: "string \<Rightarrow> string list \<Rightarrow> string list \<Rightarrow> (string \<rightharpoonup> kind) \<Rightarrow> proc_result"
  NewResMapFromBytes :: "'h \<Rightarrow> string \<Rightarrow> error + 'r"

text \<open>
  Modelled from the spec: \<^verbatim>\<open>filesys.NewTmpConfirmedDir\<close> is not part of the source
  file.  The spec has it allocate a fresh, uniquely named temporary directory, owned by
  this run; the allocation may fail.  The name is the operating system's choice.
\<close>

definition NewTmpConfirmedDir :: "('h, 'r) extern \<Rightarrow> world \<Rightarrow> (error + string) \<times> world" where
  "NewTmpConfirmedDir E w =
     (case TempDir E w of
        Inl err \<Rightarrow> (Inl err, w)
      | Inr d \<Rightarrow> (Inr d, w\<lparr>fs := (fs w)(d \<mapsto> Directory), trace := trace w @ [MkdirTemp d]\<rparr>))"

text \<open>\<^verbatim>\<open>os.Stat\<close>: an error when nothing is at the path, else what is there.\<close>

definition os_Stat :: "string \<Rightarrow> world \<Rightarrow> (error + kind) \<times> world" where
  "os_Stat name w =
     ((case fs w name of
         None \<Rightarrow> Inl (Error (''stat '' @ name @ '': no such file or directory''))
       | Some k \<Rightarrow> Inr k),
      w\<lparr>trace := trace w @ [Stat name]\<rparr>)"

definition IsDir :: "kind \<Rightarrow> bool" where
  "IsDir k = (k = Directory)"

text \<open>
  \<^verbatim>\<open>os.RemoveAll(path)\<close> removes the path and everything below it, and does nothing
  for the empty path.
\<close>

definition below :: "string \<Rightarrow> string \<Rightarrow> bool" where
  "below dir q = (q = dir \<or> take (length dir + 1) q = dir @ ''/'')"

definition os_RemoveAll :: "string \<Rightarrow> world \<Rightarrow> world" where
  "os_RemoveAll path w =
     w\<lparr>fs := (if path = [] then fs w else (\<lambda>q. if below path q then None else fs w q)),
       trace := trace w @ [RemoveAll path]\<rparr>"

text \<open>
  \<^verbatim>\<open>exec.Command\<close> leaves the field \<^verbatim>\<open>Env\<close> nil, and \<^verbatim>\<open>cmd.Run\<close> gives the child
  the environment of the current process only when \<^verbatim>\<open>Env\<close> is nil; otherwise the child
  gets exactly the entries of \<^verbatim>\<open>Env\<close>.  (Go also keeps the binary's name as the first
  entry of \<^verbatim>\<open>Args\<close>; \<open>Args\<close> here holds the arguments after it.)
\<close>

record Cmd =
  Path :: string
  Args :: "string list"
  Env :: "string list option"

definition exec_Command :: "string \<Rightarrow> string list \<Rightarrow> Cmd" where
  "exec_Command name arg = \<lparr>Path = name, Args = arg, Env = None\<rparr>"

text \<open>Go's \<^verbatim>\<open>append\<close> on a slice that may be nil.\<close>

definition go_append :: "'a list option \<Rightarrow> 'a list \<Rightarrow> 'a list option" where
  "go_append s xs = (case s of None \<Rightarrow> (if xs = [] then None else Some xs) | Some ys \<Rightarrow> Some (ys @ xs))"

definition child_environ :: "Cmd \<Rightarrow> world \<Rightarrow> string list" where
  "child_environ cmd w = (case Env cmd of None \<Rightarrow> environ w | Some e \<Rightarrow> e)"

definition Cmd_Run :: "('h, 'r) extern \<Rightarrow> Cmd \<Rightarrow> world \<Rightarrow> proc_result \<times> world" where
  "Cmd_Run E cmd w =
     (let r = run_process E (Path cmd) (Args cmd) (child_environ cmd w) (fs w)
      in (r, w\<lparr>fs := proc_fs r,
               trace := trace w @ [Exec (Path cmd) (Args cmd) (child_environ cmd w)]\<rparr>))"

text \<open>\<^verbatim>\<open>errors.Wrap(err, message)\<close>: the message, a colon, the wrapped error.\<close>

definition errors_Wrap :: "error \<Rightarrow> string \<Rightarrow> error" where
  "errors_Wrap err message = (case err of Error m \<Rightarrow> Error (message @ '': '' @ m))"

subsection \<open>The subprocess helper\<close>

text \<open>
  The body of the closure that \<^verbatim>\<open>Config\<close> stores in \<^verbatim>\<open>runHelmCommand\<close>.  It reads
  \<^verbatim>\<open>p.HelmBin\<close> and \<^verbatim>\<open>p.HelmHome\<close> when it is called.
\<close>

definition helm_environment :: "'h plugin \<Rightarrow> string list" where
  "helm_environment p =
     [''HELM_CONFIG_HOME='' @ HelmHome p,
      ''HELM_CACHE_HOME='' @ HelmHome p @ ''/.cache'',
      ''HELM_DATA_HOME='' @ HelmHome p @ ''/.data'']"

definition helm_command :: "'h plugin \<Rightarrow> string list \<Rightarrow> Cmd" where
  "helm_command p args =
     (let cmd = exec_Command (HelmBin p) args
      in cmd\<lparr>Env := go_append (Env cmd) (helm_environment p)\<rparr>)"

definition helm_closure ::
  "('h, 'r) extern \<Rightarrow> 'h plugin \<Rightarrow> string list \<Rightarrow> world \<Rightarrow> (string \<times> error option) \<times> world" where
  "helm_closure E p args w =
     (let (r, w') = Cmd_Run E (helm_command p args) w
      in if proc_failed r then
           ((proc_stdout r,
             Some (errors_Wrap
                     (Error (''failed to run command '' @ HelmBin p @ '' '' @ strings_Join args '' ''))
                     (proc_stderr r))), w')
         else ((proc_stdout r, None), w'))"

text \<open>The call \<^verbatim>\<open>p.runHelmCommand(args)\<close>; calling a nil function panics.\<close>

definition call_runHelmCommand ::
  "('h, 'r) extern \<Rightarrow> 'h plugin \<Rightarrow> string list \<Rightarrow> world \<Rightarrow> (string \<times> error option) outcome \<times> world" where
  "call_runHelmCommand E p args w =
     (case runHelmCommand p of
        None \<Rightarrow> (Panic ''invalid memory address or nil pointer dereference'', w)
      | Some HelmClosure \<Rightarrow> (let (r, w') = helm_closure E p args w in (Return r, w')))"

subsection \<open>Config\<close>

definition Config ::
  "('h, 'r) extern \<Rightarrow> 'h plugin \<Rightarrow> 'h \<Rightarrow> string \<Rightarrow> world \<Rightarrow> error option \<times> 'h plugin \<times> world" where
  "Config E p0 hh config w =
     (let p = p0\<lparr>helpers := hh\<rparr>;
          (err, p) = yaml_Unmarshal E config p
      in case err of
           Some e \<Rightarrow> (Some e, p, w)
         | None \<Rightarrow>
            (case NewTmpConfirmedDir E w of
               (Inl e, w') \<Rightarrow> (Some e, p, w')
             | (Inr dir, w') \<Rightarrow>
                (let p = p\<lparr>tmpDir := dir\<rparr>
                 in if ChartName p = [] then (Some (Error ''chartName cannot be empty''), p, w')
                    else
                      let p = (if ChartHome p = [] then p\<lparr>ChartHome := path_Join [tmpDir p, ''chart'']\<rparr> else p);
                          p = (if ChartRepoName p = [] then p\<lparr>ChartRepoName := ''stable''\<rparr> else p);
                          p = (if HelmBin p = [] then p\<lparr>HelmBin := ''helm''\<rparr> else p);
                          p = (if HelmHome p = [] then p\<lparr>HelmHome := path_Join [tmpDir p, ''.helm'']\<rparr> else p);
                          p = (if Values p = [] then p\<lparr>Values := path_Join [ChartHome p, ChartName p, ''values.yaml'']\<rparr> else p);
                          p = p\<lparr>runHelmCommand := Some HelmClosure\<rparr>
                      in (None, p, w'))))"

subsection \<open>The local-chart check\<close>

definition checkLocalChart :: "'h plugin \<Rightarrow> world \<Rightarrow> bool \<times> world" where
  "checkLocalChart p w =
     (let path = path_Join [ChartHome p, ChartName p];
          (r, w') = os_Stat path w
      in case r of Inl err \<Rightarrow> (False, w') | Inr s \<Rightarrow> (IsDir s, w'))"

subsection \<open>The version check\<close>

text \<open>
  \<^verbatim>\<open>regexp.Find\<close> for the pattern \<^verbatim>\<open>v\d+(\.\d+)+\<close>: the leftmost match, each
  repetition taking as much as it can.  \<^verbatim>\<open>\d\<close> is an ASCII digit.  After the
  \<^verbatim>\<open>v\<close> the longest run of digits is the only candidate for \<^verbatim>\<open>\d+\<close>, as the next byte
  of a match must be a dot; the same holds in every group.
\<close>

definition is_digit :: "char \<Rightarrow> bool" where
  "is_digit c = (c \<in> set ''0123456789'')"

function dot_groups :: "string \<Rightarrow> string" where
  "dot_groups [] = []"
| "dot_groups (c # r) =
     (if c = CHR ''.'' \<and> takeWhile is_digit r \<noteq> []
      then c # takeWhile is_digit r @ dot_groups (dropWhile is_digit r)
      else [])"
  by pat_completeness auto
termination
  by (relation "measure length") (auto simp: length_dropWhile_le less_Suc_eq_le)

definition match_here :: "string \<Rightarrow> string option" where
  "match_here s =
     (case s of
        [] \<Rightarrow> None
      | c # r \<Rightarrow>
          if c = CHR ''v'' \<and> takeWhile is_digit r \<noteq> [] \<and> dot_groups (dropWhile is_digit r) \<noteq> []
          then Some (c # takeWhile is_digit r @ dot_groups (dropWhile is_digit r))
          else None)"

fun regexp_Find :: "string \<Rightarrow> string option" where
  "regexp_Find [] = None"
| "regexp_Find (c # r) =
     (case match_here (c # r) of Some m \<Rightarrow> Some m | None \<Rightarrow> regexp_Find r)"

text \<open>
  \<^verbatim>\<open>regexp.Compile\<close> of the constant pattern succeeds.  \<^verbatim>\<open>Find\<close> returns nil when
  nothing matches, \<^verbatim>\<open>string(nil)\<close> is the empty string, and the slice expression
  \<^verbatim>\<open>[1:]\<close> on it panics; so does indexing an empty slice.
\<close>

definition checkHelmVersion ::
  "('h, 'r) extern \<Rightarrow> 'h plugin \<Rightarrow> world \<Rightarrow> error option outcome \<times> world" where
  "checkHelmVersion E p =
     bind_outcome (call_runHelmCommand E p [''version'', ''-c'', ''--short''])
       (\<lambda>(stdout, err) w.
          case err of
            Some e \<Rightarrow> (Return (Some e), w)
          | None \<Rightarrow>
             (let found = (case regexp_Find stdout of None \<Rightarrow> [] | Some m \<Rightarrow> m)
              in if length found < 1
                 then (Panic ''slice bounds out of range [1:0]'', w)
                 else
                   let v = drop 1 found
                   in case strings_Split v (CHR ''.'') of
                        [] \<Rightarrow> (Panic ''index out of range [0] with length 0'', w)
                      | majorVersion # _ \<Rightarrow>
                          if majorVersion \<noteq> ''3''
                          then (Return (Some (Error (''this plugin requires helm V3 but got v'' @ v))), w)
                          else (Return None, w)))"

subsection \<open>Generate\<close>

text \<open>
  The body of \<^verbatim>\<open>Generate\<close> after its \<^verbatim>\<open>defer\<close> statement, then \<^verbatim>\<open>Generate\<close>
  itself: the deferred \<^verbatim>\<open>os.RemoveAll(p.tmpDir)\<close> runs when the body returns and when
  it panics, and its result is discarded.
\<close>

definition Generate_body ::
  "('h, 'r) extern \<Rightarrow> 'h plugin \<Rightarrow> world \<Rightarrow> (error + 'r) outcome \<times> world" where
  "Generate_body E p =
     bind_outcome (checkHelmVersion E p)
       (\<lambda>err. case err of
          Some e \<Rightarrow> return_outcome (Inl e)
        | None \<Rightarrow>
           bind_outcome (\<lambda>w. let (local, w') = checkLocalChart p w in (Return local, w'))
             (\<lambda>local.
                bind_outcome
                  (if \<not> local
                   then bind_outcome (call_runHelmCommand E p (getPullCommandArgs p))
                          (\<lambda>(_, err). return_outcome err)
                   else return_outcome None)
                  (\<lambda>err. case err of
                     Some e \<Rightarrow> return_outcome (Inl e)
                   | None \<Rightarrow>
                      bind_outcome (call_runHelmCommand E p (getTemplateCommandArgs p))
                        (\<lambda>(stdout, err). case err of
                           Some e \<Rightarrow> return_outcome (Inl e)
                         | None \<Rightarrow> return_outcome (NewResMapFromBytes E (helpers p) stdout)))))"

definition Generate ::
  "('h, 'r) extern \<Rightarrow> 'h plugin \<Rightarrow> world \<Rightarrow> (error + 'r) outcome \<times> world" where
  "Generate E p w =
     (let (r, w') = Generate_body E p w
      in (r, os_RemoveAll (tmpDir p) w'))"

text \<open>The requests a run made: what it added to the trace.\<close>

definition issued :: "world \<Rightarrow> world \<Rightarrow> event list" where
  "issued w w' = drop (length (trace w)) (trace w')"

definition is_fetch :: "event \<Rightarrow> bool" where
  "is_fetch ev = (case ev of Exec b (a # as) env \<Rightarrow> a = ''pull'' | _ \<Rightarrow> False)"

subsection \<open>Notions the properties are stated with\<close>

text \<open>
  A plain path element is neither empty nor \<^verbatim>\<open>.\<close> nor \<^verbatim>\<open>..\<close>; a plain path is a
  relative path of plain elements (\<^verbatim>\<open>nginx\<close>, \<^verbatim>\<open>charts/nginx\<close>), a rooted plain path
  is a slash followed by one (\<^verbatim>\<open>/tmp/kustomize-1\<close>).  On such paths joining is
  concatenation with a slash.
\<close>

definition plain :: "string \<Rightarrow> bool" where
  "plain e = (e \<noteq> [] \<and> e \<noteq> ''.'' \<and> e \<noteq> ''..'')"

definition plain_path :: "string \<Rightarrow> bool" where
  "plain_path r = list_all plain (strings_Split r (CHR ''/''))"

definition rooted_plain :: "string \<Rightarrow> bool" where
  "rooted_plain p = (case p of [] \<Rightarrow> False | c # r \<Rightarrow> c = CHR ''/'' \<and> plain_path r)"

text \<open>
  The strings of the shape \<^verbatim>\<open>v<digits>(.<digits>)+\<close>: a \<^verbatim>\<open>v\<close>, then at least two
  non-empty runs of digits separated by dots.  The major version of such a string is what
  the code compares with \<^verbatim>\<open>3\<close>: the first dot-separated piece after the first byte.
\<close>

definition digits :: "string \<Rightarrow> bool" where
  "digits d = (d \<noteq> [] \<and> list_all is_digit d)"

definition version_shaped :: "string \<Rightarrow> bool" where
  "version_shaped m =
     (case m of
        [] \<Rightarrow> False
      | c # r \<Rightarrow> c = CHR ''v'' \<and> 2 \<le> length (strings_Split r (CHR ''.''))
                 \<and> list_all digits (strings_Split r (CHR ''.'')))"

definition major_of :: "string \<Rightarrow> string" where
  "major_of m = hd (strings_Split (drop 1 m) (CHR ''.''))"

subsection \<open>Example inputs\<close>

text \<open>
  A decoder that reads the whole configuration as the chart name, a system whose next
  temporary directory is \<^verbatim>\<open>/tmp/kustomize-1\<close>, and a renderer that prints the given
  text for the version query, a manifest otherwise, and leaves the filesystem alone.
\<close>

definition example_extern :: "string \<Rightarrow> (unit, string) extern" where
  "example_extern version_output =
     \<lparr>yaml_Unmarshal = (\<lambda>config p. (None, p\<lparr>ChartName := config\<rparr>)),
      TempDir = (\<lambda>w. Inr ''/tmp/kustomize-1''),
      run_process = (\<lambda>bin args env files.
         \<lparr>proc_stdout = (if args = [''version'', ''-c'', ''--short''] then version_output
                          else ''kind: Pod''),
          proc_stderr = [], proc_failed = False, proc_fs = files\<rparr>),
      NewResMapFromBytes = (\<lambda>h bytes. Inr bytes)\<rparr>"

definition example_plugin :: "unit plugin" where
  "example_plugin =
     \<lparr>helpers = (), runHelmCommand = None, ChartName = [], ChartVersion = [],
      ChartRepoURL = [], ChartRepoName = [], ChartHome = [], HelmBin = [], HelmHome = [],
      Values = [], ReleaseName = [], ReleaseNamespace = [], ExtraArgs = [], tmpDir = []\<rparr>"

definition configured_plugin :: "unit plugin" where
  "configured_plugin =
     \<lparr>helpers = (), runHelmCommand = Some HelmClosure, ChartName = ''nginx'', ChartVersion = [],
      ChartRepoURL = [], ChartRepoName = ''stable'', ChartHome = ''/tmp/kustomize-1/chart'',
      HelmBin = ''helm'', HelmHome = ''/tmp/kustomize-1/.helm'',
      Values = ''/tmp/kustomize-1/chart/nginx/values.yaml'',
      ReleaseName = [], ReleaseNamespace = [], ExtraArgs = [], tmpDir = ''/tmp/kustomize-1''\<rparr>"

definition example_world :: world where
  "example_world = \<lparr>fs = Map.empty, environ = [''PATH=/usr/bin'', ''HOME=/root''], trace = []\<rparr>"

definition world_with :: "kind \<Rightarrow> world" where
  "world_with k =
     \<lparr>fs = [''/tmp/kustomize-1'' \<mapsto> Directory, ''/tmp/kustomize-1/chart/nginx'' \<mapsto> k],
      environ = [''PATH=/usr/bin'', ''HOME=/root''], trace = []\<rparr>"

section \<open>Properties of the model\<close>

subsection \<open>Splitting, joining and cleaning\<close>

lemma strings_Split_not_Nil [simp]: "strings_Split s c \<noteq> []"
  by (induction s) (auto split: list.splits)

lemma strings_Split_append:
  "strings_Split (a @ c # b) c = strings_Split a c @ strings_Split b c"
proof (induction a)
  case Nil
  show ?case by simp
next
  case (Cons x a)
  then show ?case by (cases "strings_Split a c") auto
qed

lemma strings_Join_Cons:
  "ys \<noteq> [] \<Longrightarrow> strings_Join (x # ys) sep = x @ sep @ strings_Join ys sep"
  by (cases ys) auto

lemma strings_Join_Split: "strings_Join (strings_Split s c) [c] = s"
proof (induction s)
  case Nil
  show ?case by simp
next
  case (Cons x s)
  obtain h t where ht: "strings_Split s c = h # t"
    by (cases "strings_Split s c") auto
  show ?case
  proof (cases "x = c")
    case True
    with Cons show ?thesis by (simp add: strings_Join_Cons)
  next
    case False
    with Cons ht show ?thesis by (cases t) auto
  qed
qed

lemma strings_Split_no_sep: "c \<notin> set s \<Longrightarrow> strings_Split s c = [s]"
  by (induction s) auto

lemma clean_elems_plain:
  "list_all plain es \<Longrightarrow> clean_elems rooted out es = rev out @ es"
  by (induction es arbitrary: out) (auto simp: plain_def)

lemma plain_path_not_Nil: "plain_path r \<Longrightarrow> r \<noteq> []"
  by (auto simp: plain_path_def plain_def)

lemma plain_path_not_rooted: "plain_path r \<Longrightarrow> hd r \<noteq> CHR ''/''"
  by (cases r) (auto simp: plain_path_def plain_def)

lemma path_Clean_rooted_plain:
  assumes "rooted_plain p"
  shows "path_Clean p = p"
proof -
  from assms obtain r where p: "p = CHR ''/'' # r" and r: "plain_path r"
    by (auto simp: rooted_plain_def split: list.splits)
  from r have "clean_elems True [] (strings_Split r (CHR ''/'')) = strings_Split r (CHR ''/'')"
    by (simp add: clean_elems_plain plain_path_def)
  with p show ?thesis
    using strings_Join_Split [of r "CHR ''/''"] by (simp add: path_Clean_def)
qed

lemma plain_path_append:
  "plain_path a \<Longrightarrow> plain_path b \<Longrightarrow> plain_path (a @ ''/'' @ b)"
  by (simp add: plain_path_def strings_Split_append)

lemma rooted_plain_append:
  "rooted_plain a \<Longrightarrow> plain_path b \<Longrightarrow> rooted_plain (a @ ''/'' @ b)"
  using plain_path_append by (auto simp: rooted_plain_def split: list.splits)

lemma path_Join2_plain:
  "rooted_plain a \<Longrightarrow> plain_path b \<Longrightarrow> path_Join [a, b] = a @ ''/'' @ b"
  using path_Clean_rooted_plain [OF rooted_plain_append, of a b]
  by (auto simp: path_Join_def rooted_plain_def dest: plain_path_not_Nil)

lemma path_Join3_plain:
  "rooted_plain a \<Longrightarrow> plain_path b \<Longrightarrow> plain_path c \<Longrightarrow>
   path_Join [a, b, c] = a @ ''/'' @ b @ ''/'' @ c"
  using path_Clean_rooted_plain [OF rooted_plain_append [OF rooted_plain_append], of a b c]
  by (auto simp: path_Join_def rooted_plain_def dest: plain_path_not_Nil)

lemma plain_path_literals:
  "plain_path ''chart''" "plain_path ''values.yaml''" "plain_path ''nginx''"
  by (simp_all add: plain_path_def plain_def)

lemma rooted_plain_examples:
  "rooted_plain ''/tmp/kustomize-1''" "rooted_plain ''/tmp/kustomize-1/chart''"
  by (simp_all add: rooted_plain_def plain_path_def plain_def)

subsection \<open>The matcher finds exactly the version-shaped substrings\<close>

lemma dot_not_digit [simp]: "\<not> is_digit (CHR ''.'')"
  by (simp add: is_digit_def)

lemma digits_no_dot: "list_all is_digit d \<Longrightarrow> CHR ''.'' \<notin> set d"
  by (induction d) auto

lemma list_all_takeWhile [simp]: "list_all P (takeWhile P xs)"
  by (induction xs) auto

lemma takeWhile_digits_dot:
  "list_all is_digit d \<Longrightarrow> takeWhile is_digit (d @ CHR ''.'' # t) = d"
  by (induction d) auto

lemma dropWhile_digits_dot:
  "list_all is_digit d \<Longrightarrow> dropWhile is_digit (d @ CHR ''.'' # t) = CHR ''.'' # t"
  by (induction d) auto

lemma dot_groups_prefix: "\<exists>t. r = dot_groups r @ t"
proof (induction r rule: dot_groups.induct)
  case 1
  show ?case by simp
next
  case (2 c r)
  show ?case
  proof (cases "c = CHR ''.'' \<and> takeWhile is_digit r \<noteq> []")
    case True
    with 2 obtain t where t: "dropWhile is_digit r = dot_groups (dropWhile is_digit r) @ t"
      by blast
    have "r = takeWhile is_digit r @ dropWhile is_digit r" by simp
    with t have "r = takeWhile is_digit r @ dot_groups (dropWhile is_digit r) @ t" by simp
    with True show ?thesis by auto
  next
    case False
    then show ?thesis by auto
  qed
qed

text \<open>The groups the matcher takes are runs of digits, each after a dot.\<close>

lemma dot_groups_Split:
  "dot_groups r = [] \<or>
   (\<exists>parts. parts \<noteq> [] \<and> list_all digits parts \<and>
      (\<forall>d. list_all is_digit d \<longrightarrow> strings_Split (d @ dot_groups r) (CHR ''.'') = d # parts))"
proof (induction r rule: dot_groups.induct)
  case 1
  show ?case by simp
next
  case (2 c r)
  show ?case
  proof (cases "c = CHR ''.'' \<and> takeWhile is_digit r \<noteq> []")
    case False
    then show ?thesis by auto
  next
    case True
    let ?g = "takeWhile is_digit r"
    let ?rest = "dot_groups (dropWhile is_digit r)"
    have g: "digits ?g" using True by (simp add: digits_def)
    from 2 True have IH: "?rest = [] \<or>
       (\<exists>parts. parts \<noteq> [] \<and> list_all digits parts \<and>
          (\<forall>d. list_all is_digit d \<longrightarrow> strings_Split (d @ ?rest) (CHR ''.'') = d # parts))"
      by blast
    then obtain parts where parts: "list_all digits parts"
        and sp: "strings_Split (?g @ ?rest) (CHR ''.'') = ?g # parts"
    proof
      assume "?rest = []"
      then have "strings_Split (?g @ ?rest) (CHR ''.'') = ?g # []"
        by (simp add: strings_Split_no_sep digits_no_dot)
      then show ?thesis using that [of "[]"] by simp
    next
      assume "\<exists>parts. parts \<noteq> [] \<and> list_all digits parts \<and>
          (\<forall>d. list_all is_digit d \<longrightarrow> strings_Split (d @ ?rest) (CHR ''.'') = d # parts)"
      then obtain ps where "list_all digits ps"
        and "\<forall>d. list_all is_digit d \<longrightarrow> strings_Split (d @ ?rest) (CHR ''.'') = d # ps" by blast
      then show ?thesis using that [of ps] by simp
    qed
    have "\<forall>d. list_all is_digit d \<longrightarrow>
            strings_Split (d @ dot_groups (c # r)) (CHR ''.'') = d # (?g # parts)"
    proof (intro allI impI)
      fix d assume d: "list_all is_digit d"
      have "strings_Split (d @ CHR ''.'' # (?g @ ?rest)) (CHR ''.'')
              = strings_Split d (CHR ''.'') @ strings_Split (?g @ ?rest) (CHR ''.'')"
        by (rule strings_Split_append)
      with d sp True show "strings_Split (d @ dot_groups (c # r)) (CHR ''.'') = d # (?g # parts)"
        by (simp add: strings_Split_no_sep digits_no_dot)
    qed
    with g parts show ?thesis by (intro disjI2 exI [of _ "?g # parts"]) simp
  qed
qed

lemma match_here_shaped:
  assumes "match_here s = Some m"
  shows "version_shaped m \<and> (\<exists>post. s = m @ post)"
proof -
  from assms obtain r where s: "s = CHR ''v'' # r"
      and d: "takeWhile is_digit r \<noteq> []"
      and g: "dot_groups (dropWhile is_digit r) \<noteq> []"
      and m: "m = CHR ''v'' # takeWhile is_digit r @ dot_groups (dropWhile is_digit r)"
    by (auto simp: match_here_def split: list.splits if_splits)
  from dot_groups_Split [of "dropWhile is_digit r"] g obtain parts
    where parts: "parts \<noteq> []" "list_all digits parts"
      and sp: "strings_Split (takeWhile is_digit r @ dot_groups (dropWhile is_digit r)) (CHR ''.'')
                 = takeWhile is_digit r # parts"
    by auto
  have shaped: "version_shaped m"
    using d parts sp by (cases parts) (auto simp: version_shaped_def m digits_def)
  obtain t where "dropWhile is_digit r = dot_groups (dropWhile is_digit r) @ t"
    using dot_groups_prefix by blast
  then have "takeWhile is_digit r @ dot_groups (dropWhile is_digit r) @ t = r"
    by (metis takeWhile_dropWhile_id)
  then have "s = m @ t" by (simp add: s m)
  with shaped show ?thesis by blast
qed

lemma match_here_major:
  assumes "match_here s = Some m"
  shows "major_of m = takeWhile is_digit (tl s)"
proof -
  from assms obtain r where s: "s = CHR ''v'' # r"
      and g: "dot_groups (dropWhile is_digit r) \<noteq> []"
      and m: "m = CHR ''v'' # takeWhile is_digit r @ dot_groups (dropWhile is_digit r)"
    by (auto simp: match_here_def split: list.splits if_splits)
  from dot_groups_Split [of "dropWhile is_digit r"] g obtain parts
    where "strings_Split (takeWhile is_digit r @ dot_groups (dropWhile is_digit r)) (CHR ''.'')
                 = takeWhile is_digit r # parts"
    by auto
  then show ?thesis by (simp add: major_of_def m s)
qed

text \<open>The first two pieces of a version-shaped string, and what follows them.\<close>

lemma version_shaped_parts:
  assumes "version_shaped m"
  obtains d1 d2 t where "m = CHR ''v'' # d1 @ CHR ''.'' # d2 @ t" "digits d1" "digits d2"
    "major_of m = d1"
proof -
  from assms obtain r where m: "m = CHR ''v'' # r"
      and len: "2 \<le> length (strings_Split r (CHR ''.''))"
      and all: "list_all digits (strings_Split r (CHR ''.''))"
    by (auto simp: version_shaped_def split: list.splits)
  from len obtain d1 d2 rest where sp: "strings_Split r (CHR ''.'') = d1 # d2 # rest"
    by (cases "strings_Split r (CHR ''.'')"; cases "tl (strings_Split r (CHR ''.''))") auto
  from all sp have d: "digits d1" "digits d2" by simp_all
  have "r = strings_Join (d1 # d2 # rest) ''.''"
    using strings_Join_Split [of r "CHR ''.''"] sp by simp
  then obtain t where "r = d1 @ CHR ''.'' # d2 @ t"
    by (cases rest) auto
  with m sp d show ?thesis by (intro that [of d1 d2 t]) (simp_all add: major_of_def)
qed

lemma shaped_major:
  assumes "version_shaped m"
  shows "major_of m = takeWhile is_digit (tl (m @ post))"
proof -
  from assms obtain d1 d2 t where m: "m = CHR ''v'' # d1 @ CHR ''.'' # d2 @ t"
      and d1: "digits d1" and mj: "major_of m = d1"
    by (rule version_shaped_parts)
  have "takeWhile is_digit (d1 @ CHR ''.'' # d2 @ t @ post) = d1"
    using d1 by (intro takeWhile_digits_dot) (simp add: digits_def)
  with mj show ?thesis by (simp add: m)
qed

lemma shaped_match_here:
  assumes "version_shaped m"
  shows "match_here (m @ post) \<noteq> None"
proof -
  from assms obtain d1 d2 t where m: "m = CHR ''v'' # d1 @ CHR ''.'' # d2 @ t"
      and d1: "digits d1" and d2: "digits d2"
    by (rule version_shaped_parts)
  from d2 obtain x d2' where d2': "d2 = x # d2'" "is_digit x"
    by (cases d2) (auto simp: digits_def)
  have tw: "takeWhile is_digit (d1 @ CHR ''.'' # d2 @ t @ post) = d1"
    using d1 by (intro takeWhile_digits_dot) (simp add: digits_def)
  have dw: "dropWhile is_digit (d1 @ CHR ''.'' # d2 @ t @ post) = CHR ''.'' # d2 @ t @ post"
    using d1 by (intro dropWhile_digits_dot) (simp add: digits_def)
  have "dot_groups (CHR ''.'' # d2 @ t @ post) \<noteq> []"
    using d2' by simp
  with tw dw d1 show ?thesis
    by (simp add: match_here_def m digits_def)
qed

lemma regexp_Find_Some:
  "regexp_Find s = Some m \<Longrightarrow> version_shaped m \<and> (\<exists>pre post. s = pre @ m @ post)"
proof (induction s)
  case Nil
  then show ?case by simp
next
  case (Cons c s)
  show ?case
  proof (cases "match_here (c # s)")
    case (Some m')
    with Cons.prems have "m' = m" by simp
    with Some match_here_shaped [of "c # s" m] show ?thesis
      by (metis append_Nil)
  next
    case None
    with Cons.prems have "regexp_Find s = Some m" by simp
    with Cons.IH obtain pre post where "version_shaped m" "s = pre @ m @ post" by blast
    then have "c # s = (c # pre) @ m @ post" by simp
    with \<open>version_shaped m\<close> show ?thesis by blast
  qed
qed

lemma regexp_Find_finds:
  "version_shaped m \<Longrightarrow> regexp_Find (pre @ m @ post) \<noteq> None"
proof (induction pre)
  case Nil
  from Nil obtain r where m: "m = CHR ''v'' # r"
    by (auto simp: version_shaped_def split: list.splits)
  from shaped_match_here [OF Nil, of post] show ?case
    by (auto simp: m)
next
  case (Cons x pre)
  then show ?case by (auto split: option.splits)
qed

lemma regexp_Find_None_iff:
  "regexp_Find s = None \<longleftrightarrow> (\<forall>pre m post. s = pre @ m @ post \<longrightarrow> \<not> version_shaped m)"
  by (metis regexp_Find_Some regexp_Find_finds not_Some_eq)

text \<open>The match found starts no later than any version-shaped substring.\<close>

lemma regexp_Find_leftmost:
  "regexp_Find s = Some m \<Longrightarrow>
   \<exists>pre post. s = pre @ m @ post \<and> match_here (m @ post) = Some m \<and>
      (\<forall>pre' m' post'. s = pre' @ m' @ post' \<and> version_shaped m' \<longrightarrow> length pre \<le> length pre')"
proof (induction s)
  case Nil
  then show ?case by simp
next
  case (Cons c s)
  show ?case
  proof (cases "match_here (c # s)")
    case (Some m')
    with Cons.prems have mm: "match_here (c # s) = Some m" by simp
    then obtain post where "c # s = m @ post" using match_here_shaped by blast
    with mm have "c # s = [] @ m @ post \<and> match_here (m @ post) = Some m" by simp
    then show ?thesis by (metis list.size(3) le0)
  next
    case None
    with Cons.prems have "regexp_Find s = Some m" by simp
    with Cons.IH obtain pre post where s: "s = pre @ m @ post"
        and mh: "match_here (m @ post) = Some m"
        and left: "\<And>pre' m' post'. s = pre' @ m' @ post' \<Longrightarrow> version_shaped m' \<Longrightarrow>
                     length pre \<le> length pre'"
      by blast
    have "length (c # pre) \<le> length pre'"
      if eq: "c # s = pre' @ m' @ post'" and sh: "version_shaped m'" for pre' m' post'
    proof (cases pre')
      case Nil
      with eq None shaped_match_here [OF sh, of post'] show ?thesis by simp
    next
      case (Cons x pre'')
      with eq have "s = pre'' @ m' @ post'" by simp
      from left [OF this sh] Cons show ?thesis by simp
    qed
    moreover have "c # s = (c # pre) @ m @ post" using s by simp
    ultimately show ?thesis using mh by blast
  qed
qed

lemma regexp_Find_not_Nil: "regexp_Find s = Some m \<Longrightarrow> m \<noteq> []"
  using regexp_Find_Some [of s m] by (auto simp: version_shaped_def)

subsection \<open>What the helper and the steps of a run do to the world\<close>

lemma helm_command_simps [simp]:
  "Path (helm_command p args) = HelmBin p"
  "Args (helm_command p args) = args"
  "Env (helm_command p args) = Some (helm_environment p)"
  by (simp_all add: helm_command_def exec_Command_def go_append_def helm_environment_def)

lemma child_environ_helm [simp]: "child_environ (helm_command p args) w = helm_environment p"
  by (simp add: child_environ_def)

lemma helm_closure_eq:
  "helm_closure E p args w =
     ((proc_stdout (run_process E (HelmBin p) args (helm_environment p) (fs w)),
       if proc_failed (run_process E (HelmBin p) args (helm_environment p) (fs w))
       then Some (errors_Wrap
                    (Error (''failed to run command '' @ HelmBin p @ '' '' @ strings_Join args '' ''))
                    (proc_stderr (run_process E (HelmBin p) args (helm_environment p) (fs w))))
       else None),
      w\<lparr>fs := proc_fs (run_process E (HelmBin p) args (helm_environment p) (fs w)),
        trace := trace w @ [Exec (HelmBin p) args (helm_environment p)]\<rparr>)"
  by (simp add: helm_closure_def Cmd_Run_def Let_def)

lemma call_runHelmCommand_configured:
  "runHelmCommand p = Some HelmClosure \<Longrightarrow>
   call_runHelmCommand E p args w =
     (Return (fst (helm_closure E p args w)), snd (helm_closure E p args w))"
  by (simp add: call_runHelmCommand_def split: prod.splits)

lemma call_runHelmCommand_nil:
  "runHelmCommand p = None \<Longrightarrow>
   call_runHelmCommand E p args w =
     (Panic ''invalid memory address or nil pointer dereference'', w)"
  by (simp add: call_runHelmCommand_def)

lemma checkHelmVersion_world:
  "snd (checkHelmVersion E p w) =
     (if runHelmCommand p = None then w
      else snd (helm_closure E p [''version'', ''-c'', ''--short''] w))"
proof (cases "runHelmCommand p")
  case None
  then show ?thesis
    by (simp add: checkHelmVersion_def bind_outcome_def call_runHelmCommand_nil)
next
  case (Some a)
  then have "runHelmCommand p = Some HelmClosure" by (cases a) simp
  then show ?thesis
    by (simp add: checkHelmVersion_def bind_outcome_def call_runHelmCommand_configured Let_def
        split: prod.splits option.splits list.splits)
qed

lemma checkHelmVersion_configured:
  assumes "checkHelmVersion E p w = (Return r, w1)"
  shows "runHelmCommand p = Some HelmClosure"
proof (cases "runHelmCommand p")
  case None
  with assms show ?thesis
    by (simp add: checkHelmVersion_def bind_outcome_def call_runHelmCommand_nil)
next
  case (Some a)
  then show ?thesis by (cases a) simp
qed

lemma checkHelmVersion_trace:
  "trace (snd (checkHelmVersion E p w)) =
     trace w @ (if runHelmCommand p = None then []
                else [Exec (HelmBin p) [''version'', ''-c'', ''--short''] (helm_environment p)])"
  by (simp add: checkHelmVersion_world helm_closure_eq)

lemma checkHelmVersion_eval:
  assumes "runHelmCommand p = Some HelmClosure"
    and "helm_closure E p [''version'', ''-c'', ''--short''] w = ((stdout, None), w1)"
  shows "checkHelmVersion E p w =
     (case regexp_Find stdout of
        None \<Rightarrow> (Panic ''slice bounds out of range [1:0]'', w1)
      | Some m \<Rightarrow>
          if major_of m = ''3'' then (Return None, w1)
          else (Return (Some (Error (''this plugin requires helm V3 but got v'' @ drop 1 m))), w1))"
proof (cases "regexp_Find stdout")
  case None
  with assms show ?thesis
    by (simp add: checkHelmVersion_def bind_outcome_def call_runHelmCommand_configured)
next
  case (Some m)
  then have "m \<noteq> []" by (rule regexp_Find_not_Nil)
  then have len: "\<not> length m < 1" by (cases m) auto
  obtain h t where sp: "strings_Split (drop 1 m) (CHR ''.'') = h # t"
    by (cases "strings_Split (drop 1 m) (CHR ''.'')") auto
  from assms Some len sp show ?thesis
    by (simp add: checkHelmVersion_def bind_outcome_def call_runHelmCommand_configured major_of_def)
qed

lemma checkLocalChart_eq:
  "checkLocalChart p w =
     (fs w (path_Join [ChartHome p, ChartName p]) = Some Directory,
      w\<lparr>trace := trace w @ [Stat (path_Join [ChartHome p, ChartName p])]\<rparr>)"
  by (simp add: checkLocalChart_def os_Stat_def IsDir_def Let_def split: option.splits)

lemma Generate_world:
  "snd (Generate E p w) = os_RemoveAll (tmpDir p) (snd (Generate_body E p w))"
  by (simp add: Generate_def split: prod.splits)

text \<open>What the body of \<^verbatim>\<open>Generate\<close> asks for once the version check has passed.\<close>

lemma Generate_body_after_gate:
  assumes "checkHelmVersion E p w = (Return None, w1)"
  shows "trace (snd (Generate_body E p w)) =
     trace w1 @ [Stat (path_Join [ChartHome p, ChartName p])]
     @ (if fs w1 (path_Join [ChartHome p, ChartName p]) = Some Directory then []
        else [Exec (HelmBin p) (getPullCommandArgs p) (helm_environment p)])
     @ (if fs w1 (path_Join [ChartHome p, ChartName p]) \<noteq> Some Directory
           \<and> proc_failed (run_process E (HelmBin p) (getPullCommandArgs p) (helm_environment p) (fs w1))
        then []
        else [Exec (HelmBin p) (getTemplateCommandArgs p) (helm_environment p)])"
  using assms checkHelmVersion_configured [OF assms]
  by (simp add: Generate_body_def bind_outcome_def return_outcome_def checkLocalChart_eq
      call_runHelmCommand_configured helm_closure_eq)

lemma Generate_issued_after_gate:
  assumes "checkHelmVersion E p w = (Return None, w1)"
  shows "issued w (snd (Generate E p w)) =
     [Exec (HelmBin p) [''version'', ''-c'', ''--short''] (helm_environment p),
      Stat (path_Join [ChartHome p, ChartName p])]
     @ (if fs w1 (path_Join [ChartHome p, ChartName p]) = Some Directory then []
        else [Exec (HelmBin p) (getPullCommandArgs p) (helm_environment p)])
     @ (if fs w1 (path_Join [ChartHome p, ChartName p]) \<noteq> Some Directory
           \<and> proc_failed (run_process E (HelmBin p) (getPullCommandArgs p) (helm_environment p) (fs w1))
        then []
        else [Exec (HelmBin p) (getTemplateCommandArgs p) (helm_environment p)])
     @ [RemoveAll (tmpDir p)]"
proof -
  have "trace w1 = trace w @ [Exec (HelmBin p) [''version'', ''-c'', ''--short''] (helm_environment p)]"
    using checkHelmVersion_trace [of E p w] checkHelmVersion_configured [OF assms] assms by simp
  then show ?thesis
    using Generate_body_after_gate [OF assms]
    by (simp add: issued_def Generate_world os_RemoveAll_def)
qed

lemma Generate_issued_gate_failed:
  assumes "\<nexists>w1. checkHelmVersion E p w = (Return None, w1)"
  shows "issued w (snd (Generate E p w)) =
     (if runHelmCommand p = None then []
      else [Exec (HelmBin p) [''version'', ''-c'', ''--short''] (helm_environment p)])
     @ [RemoveAll (tmpDir p)]"
proof -
  have "snd (Generate_body E p w) = snd (checkHelmVersion E p w)"
  proof (cases "checkHelmVersion E p w")
    case (Pair r w1)
    with assms show ?thesis
      by (cases r)
        (auto simp: Generate_body_def bind_outcome_def return_outcome_def split: option.splits)
  qed
  then show ?thesis
    by (simp add: issued_def Generate_world os_RemoveAll_def checkHelmVersion_trace)
qed

lemma is_fetch_simps [simp]:
  "is_fetch (Exec b (getPullCommandArgs p) e)"
  "\<not> is_fetch (Exec b (getTemplateCommandArgs p) e)"
  "\<not> is_fetch (Exec b [''version'', ''-c'', ''--short''] e)"
  "\<not> is_fetch (Stat x)"
  "\<not> is_fetch (RemoveAll x)"
  by (simp_all add: is_fetch_def getPullCommandArgs_def getTemplateCommandArgs_def Let_def)

text \<open>The example renderer and the configured example plugin, evaluated.\<close>

lemma example_version_run:
  "helm_closure (example_extern out) configured_plugin [''version'', ''-c'', ''--short''] w =
     ((out, None),
      w\<lparr>fs := fs w,
        trace := trace w @ [Exec ''helm'' [''version'', ''-c'', ''--short'']
                             (helm_environment configured_plugin)]\<rparr>)"
  by (simp add: helm_closure_eq example_extern_def configured_plugin_def)

lemma example_chart_path:
  "path_Join [ChartHome configured_plugin, ChartName configured_plugin] = ''/tmp/kustomize-1/chart/nginx''"
  using path_Join2_plain [OF rooted_plain_examples(2) plain_path_literals(3)]
  by (simp add: configured_plugin_def)

text \<open>What a successful \<^verbatim>\<open>Config\<close> returns.\<close>

lemma Config_success:
  assumes "yaml_Unmarshal E config (q\<lparr>helpers := hh\<rparr>) = (None, c)"
    and "TempDir E w = Inr dir"
    and "ChartName c \<noteq> []"
  shows "Config E q hh config w =
     (None,
      c\<lparr>tmpDir := dir,
        ChartHome := (if ChartHome c = [] then path_Join [dir, ''chart''] else ChartHome c),
        ChartRepoName := (if ChartRepoName c = [] then ''stable'' else ChartRepoName c),
        HelmBin := (if HelmBin c = [] then ''helm'' else HelmBin c),
        HelmHome := (if HelmHome c = [] then path_Join [dir, ''.helm''] else HelmHome c),
        Values := (if Values c = []
                   then path_Join [if ChartHome c = [] then path_Join [dir, ''chart''] else ChartHome c,
                                   ChartName c, ''values.yaml'']
                   else Values c),
        runHelmCommand := Some HelmClosure\<rparr>,
      w\<lparr>fs := (fs w)(dir \<mapsto> Directory), trace := trace w @ [MkdirTemp dir]\<rparr>)"
  using assms by (simp add: Config_def NewTmpConfirmedDir_def Let_def)

lemma example_gate_passes:
  "checkHelmVersion (example_extern ''v3.2.1+g1234'') configured_plugin w =
     (Return None,
      w\<lparr>fs := fs w,
        trace := trace w @ [Exec ''helm'' [''version'', ''-c'', ''--short'']
                             (helm_environment configured_plugin)]\<rparr>)"
proof -
  have c: "runHelmCommand configured_plugin = Some HelmClosure"
    by (simp add: configured_plugin_def)
  have f: "regexp_Find ''v3.2.1+g1234'' = Some ''v3.2.1''"
    by (simp add: match_here_def is_digit_def)
  show ?thesis
    using checkHelmVersion_eval [OF c example_version_run, of "''v3.2.1+g1234''" w] f
    by (simp add: major_of_def)
qed

lemma example_gate_panics:
  "checkHelmVersion (example_extern ''version -c --short'') configured_plugin w =
     (Panic ''slice bounds out of range [1:0]'',
      w\<lparr>fs := fs w,
        trace := trace w @ [Exec ''helm'' [''version'', ''-c'', ''--short'']
                             (helm_environment configured_plugin)]\<rparr>)"
proof -
  have c: "runHelmCommand configured_plugin = Some HelmClosure"
    by (simp add: configured_plugin_def)
  have f: "regexp_Find ''version -c --short'' = None"
    by (simp add: match_here_def is_digit_def)
  show ?thesis
    using checkHelmVersion_eval [OF c example_version_run, of "''version -c --short''" w] f
    by simp
qed

lemma example_gate_rejects:
  "checkHelmVersion (example_extern ''Client: v2.16.1+gbbdfe5e'') configured_plugin w =
     (Return (Some (Error ''this plugin requires helm V3 but got v2.16.1'')),
      w\<lparr>fs := fs w,
        trace := trace w @ [Exec ''helm'' [''version'', ''-c'', ''--short'']
                             (helm_environment configured_plugin)]\<rparr>)"
proof -
  have c: "runHelmCommand configured_plugin = Some HelmClosure"
    by (simp add: configured_plugin_def)
  have f: "regexp_Find ''Client: v2.16.1+gbbdfe5e'' = Some ''v2.16.1''"
    by (simp add: match_here_def is_digit_def)
  show ?thesis
    using checkHelmVersion_eval [OF c example_version_run, of "''Client: v2.16.1+gbbdfe5e''" w] f
    by (simp add: major_of_def)
qed

section \<open>The claims\<close>

text \<open>
  C1, as the code has it.  For a configuration whose chart name is empty, \<^verbatim>\<open>Config\<close>
  allocates the temporary working directory before it looks at the chart name.  When the
  allocation fails, \<^verbatim>\<open>Config\<close> returns the allocation's error and leaves the world as it
  was; when it succeeds, \<^verbatim>\<open>Config\<close> returns the error \<^verbatim>\<open>chartName cannot be empty\<close>,
  the new directory is the only change to the filesystem, no process is run, and no default
  is applied to the plugin (only \<^verbatim>\<open>tmpDir\<close> is set).
\<close>

theorem Config_empty_chart_name:
  assumes "yaml_Unmarshal E config (q\<lparr>helpers := hh\<rparr>) = (None, c)"
    and "ChartName c = []"
  shows "Config E q hh config w =
     (case TempDir E w of
        Inl e \<Rightarrow> (Some e, c, w)
      | Inr dir \<Rightarrow>
          (Some (Error ''chartName cannot be empty''), c\<lparr>tmpDir := dir\<rparr>,
           w\<lparr>fs := (fs w)(dir \<mapsto> Directory), trace := trace w @ [MkdirTemp dir]\<rparr>))"
  using assms by (simp add: Config_def NewTmpConfirmedDir_def split: sum.splits)

theorem Config_empty_chart_name_witness:
  "Config (example_extern []) example_plugin () [] example_world =
     (Some (Error ''chartName cannot be empty''),
      example_plugin\<lparr>tmpDir := ''/tmp/kustomize-1''\<rparr>,
      example_world\<lparr>fs := [''/tmp/kustomize-1'' \<mapsto> Directory],
                    trace := [MkdirTemp ''/tmp/kustomize-1'']\<rparr>)"
  using Config_empty_chart_name [where E = "example_extern []" and config = "[]"
      and q = example_plugin and hh = "()" and c = example_plugin and w = example_world]
  by (simp add: example_extern_def example_plugin_def example_world_def)

text \<open>
  The claim as written fails: with an empty chart name and an empty filesystem,
  \<^verbatim>\<open>Config\<close> returns the missing-name error and has created \<^verbatim>\<open>/tmp/kustomize-1\<close>.
\<close>

theorem Config_empty_chart_name_allocates:
  "ChartName (snd (yaml_Unmarshal (example_extern []) [] (example_plugin\<lparr>helpers := ()\<rparr>))) = []
   \<and> fs example_world ''/tmp/kustomize-1'' = None
   \<and> fst (Config (example_extern []) example_plugin () [] example_world)
        = Some (Error ''chartName cannot be empty'')
   \<and> fs (snd (snd (Config (example_extern []) example_plugin () [] example_world)))
        ''/tmp/kustomize-1'' = Some Directory
   \<and> trace (snd (snd (Config (example_extern []) example_plugin () [] example_world)))
        = [MkdirTemp ''/tmp/kustomize-1'']"
  by (simp add: Config_def NewTmpConfirmedDir_def example_extern_def example_plugin_def
      example_world_def)

text \<open>
  C2, at a failing input.  The helper appends the three variables to the \<^verbatim>\<open>Env\<close> of a
  fresh command, which is nil, so the child's environment is the three variables and
  nothing else: with \<^verbatim>\<open>PATH\<close> and \<^verbatim>\<open>HOME\<close> in the caller's environment, the child is
  started without them.
\<close>

theorem runHelmCommand_child_environment:
  "environ example_world = [''PATH=/usr/bin'', ''HOME=/root'']
   \<and> issued example_world
        (snd (helm_closure (example_extern []) configured_plugin [''version'', ''-c'', ''--short'']
               example_world))
      = [Exec ''helm'' [''version'', ''-c'', ''--short'']
           [''HELM_CONFIG_HOME=/tmp/kustomize-1/.helm'',
            ''HELM_CACHE_HOME=/tmp/kustomize-1/.helm/.cache'',
            ''HELM_DATA_HOME=/tmp/kustomize-1/.helm/.data'']]
   \<and> ''PATH=/usr/bin'' \<notin> set (child_environ
        (helm_command configured_plugin [''version'', ''-c'', ''--short'']) example_world)"
  by (simp add: helm_closure_eq issued_def helm_environment_def example_world_def
      configured_plugin_def)

text \<open>
  C3.  Let the version query succeed with an output that contains a version-shaped
  substring.  Then the check works on the leftmost match (no version-shaped substring
  starts before it, and every one that starts where it starts has the same major version).
  The check passes exactly when the first dot-separated piece after the \<^verbatim>\<open>v\<close> of that
  match is \<^verbatim>\<open>3\<close>; otherwise it returns an error whose message ends with the version
  found.
\<close>

theorem checkHelmVersion_major:
  assumes cfg: "runHelmCommand p = Some HelmClosure"
    and run: "helm_closure E p [''version'', ''-c'', ''--short''] w = ((stdout, None), w1)"
    and sub: "stdout = pre0 @ m0 @ post0"
    and sh: "version_shaped m0"
  shows "\<exists>pre m post. stdout = pre @ m @ post \<and> version_shaped m
      \<and> regexp_Find stdout = Some m
      \<and> length pre \<le> length pre0
      \<and> (length pre0 = length pre \<longrightarrow> major_of m0 = major_of m)
      \<and> checkHelmVersion E p w =
          (if major_of m = ''3'' then (Return None, w1)
           else (Return (Some (Error (''this plugin requires helm V3 but got v'' @ drop 1 m))), w1))"
proof -
  from regexp_Find_finds [OF sh, of pre0 post0] sub obtain m where f: "regexp_Find stdout = Some m"
    by auto
  from regexp_Find_leftmost [OF f] obtain pre post where s: "stdout = pre @ m @ post"
      and mh: "match_here (m @ post) = Some m"
      and left: "\<And>pre' m' post'. stdout = pre' @ m' @ post' \<Longrightarrow> version_shaped m' \<Longrightarrow>
                   length pre \<le> length pre'"
    by blast
  have shaped: "version_shaped m" using regexp_Find_Some [OF f] by simp
  have le: "length pre \<le> length pre0" using left [OF sub sh] .
  have same: "major_of m0 = major_of m" if "length pre0 = length pre"
  proof -
    from that sub s have "m0 @ post0 = m @ post" by (metis append_eq_append_conv)
    then show ?thesis
      using shaped_major [OF sh, of post0] match_here_major [OF mh] by simp
  qed
  from checkHelmVersion_eval [OF cfg run] f
  have "checkHelmVersion E p w =
          (if major_of m = ''3'' then (Return None, w1)
           else (Return (Some (Error (''this plugin requires helm V3 but got v'' @ drop 1 m))), w1))"
    by simp
  with s shaped f le same show ?thesis by blast
qed

theorem checkHelmVersion_major_witness:
  "fst (checkHelmVersion (example_extern ''v3.2.1+g1234'') configured_plugin example_world)
     = Return None
   \<and> fst (checkHelmVersion (example_extern ''Client: v2.16.1+gbbdfe5e'') configured_plugin
            example_world)
     = Return (Some (Error ''this plugin requires helm V3 but got v2.16.1''))"
proof -
  have c: "runHelmCommand configured_plugin = Some HelmClosure"
    by (simp add: configured_plugin_def)
  have s3: "version_shaped ''v3.2.1''" and s2: "version_shaped ''v2.16.1''"
    by (simp_all add: version_shaped_def digits_def is_digit_def)
  have f3: "regexp_Find ''v3.2.1+g1234'' = Some ''v3.2.1''"
    and f2: "regexp_Find ''Client: v2.16.1+gbbdfe5e'' = Some ''v2.16.1''"
    by (simp_all add: match_here_def is_digit_def)
  have e3: "''v3.2.1+g1234'' = [] @ ''v3.2.1'' @ ''+g1234''"
    and e2: "''Client: v2.16.1+gbbdfe5e'' = ''Client: '' @ ''v2.16.1'' @ ''+gbbdfe5e''"
    by simp_all
  from checkHelmVersion_major [OF c example_version_run e3 s3, of example_world] f3
  have "fst (checkHelmVersion (example_extern ''v3.2.1+g1234'') configured_plugin example_world)
          = Return None"
    by (auto simp: major_of_def)
  moreover
  from checkHelmVersion_major [OF c example_version_run e2 s2, of example_world] f2
  have "fst (checkHelmVersion (example_extern ''Client: v2.16.1+gbbdfe5e'') configured_plugin
               example_world)
          = Return (Some (Error ''this plugin requires helm V3 but got v2.16.1''))"
    by (auto simp: major_of_def)
  ultimately show ?thesis by simp
qed

text \<open>
  C4, what the code does.  When the version query succeeds and no substring of its output
  is version-shaped, \<^verbatim>\<open>Find\<close> returns nil and the slice expression \<^verbatim>\<open>[1:]\<close> on the
  empty string panics: the check does not return an error value.
\<close>

theorem checkHelmVersion_no_match_panics:
  assumes "runHelmCommand p = Some HelmClosure"
    and "helm_closure E p [''version'', ''-c'', ''--short''] w = ((stdout, None), w1)"
    and "\<forall>pre m post. stdout = pre @ m @ post \<longrightarrow> \<not> version_shaped m"
  shows "checkHelmVersion E p w = (Panic ''slice bounds out of range [1:0]'', w1)"
proof -
  from assms(3) have "regexp_Find stdout = None" by (simp add: regexp_Find_None_iff)
  with checkHelmVersion_eval [OF assms(1,2)] show ?thesis by simp
qed

theorem checkHelmVersion_no_match_panics_witness:
  "fst (checkHelmVersion (example_extern ''version -c --short'') configured_plugin example_world)
     = Panic ''slice bounds out of range [1:0]''"
proof -
  have c: "runHelmCommand configured_plugin = Some HelmClosure"
    by (simp add: configured_plugin_def)
  have "regexp_Find ''version -c --short'' = None"
    by (simp add: match_here_def is_digit_def)
  then have n: "\<forall>pre m post. ''version -c --short'' = pre @ m @ post \<longrightarrow> \<not> version_shaped m"
    by (simp only: regexp_Find_None_iff)
  from checkHelmVersion_no_match_panics [OF c example_version_run n, of example_world]
  show ?thesis by simp
qed

text \<open>
  C5.  A run of \<^verbatim>\<open>Generate\<close> issues a fetch (a \<^verbatim>\<open>pull\<close> invocation) exactly when the
  version check has passed and, in the world the version check left, there is no directory
  at the join of chart home and chart name; no other field of the configuration matters.
  The fetch, when issued, is the renderer binary with the pull arguments.
\<close>

theorem Generate_fetch_iff:
  "((\<exists>ev \<in> set (issued w (snd (Generate E p w))). is_fetch ev) \<longleftrightarrow>
      (\<exists>w1. checkHelmVersion E p w = (Return None, w1)
            \<and> fs w1 (path_Join [ChartHome p, ChartName p]) \<noteq> Some Directory))
   \<and> (\<forall>ev \<in> set (issued w (snd (Generate E p w))).
        is_fetch ev \<longrightarrow> ev = Exec (HelmBin p) (getPullCommandArgs p) (helm_environment p))"
proof (cases "\<exists>w1. checkHelmVersion E p w = (Return None, w1)")
  case True
  then obtain w1 where g: "checkHelmVersion E p w = (Return None, w1)" ..
  from Generate_issued_after_gate [OF g] g show ?thesis by auto
next
  case False
  from Generate_issued_gate_failed [OF False] False show ?thesis by auto
qed

theorem Generate_fetch_iff_witness:
  "(\<exists>ev \<in> set (issued example_world
        (snd (Generate (example_extern ''v3.2.1+g1234'') configured_plugin example_world))).
      is_fetch ev)
   \<and> \<not> (\<exists>ev \<in> set (issued (world_with Directory)
        (snd (Generate (example_extern ''v3.2.1+g1234'') configured_plugin (world_with Directory)))).
      is_fetch ev)"
  using Generate_fetch_iff [where E = "example_extern ''v3.2.1+g1234''" and p = configured_plugin
      and w = example_world]
    Generate_fetch_iff [where E = "example_extern ''v3.2.1+g1234''" and p = configured_plugin
      and w = "world_with Directory"]
  by (simp add: example_gate_passes example_chart_path example_world_def world_with_def)

text \<open>
  C6.  The fetch argument list is \<^verbatim>\<open>pull --untar --untardir <chartHome>\<close>, then
  \<^verbatim>\<open>--version <v>\<close> when the chart version is not empty, then \<^verbatim>\<open>--repo <url>\<close> when
  the repository URL is not empty, and last the chart reference: the bare chart name when
  the URL is not empty, \<^verbatim>\<open><chartRepoName>/<chartName>\<close> otherwise.
\<close>

theorem getPullCommandArgs_exact:
  "getPullCommandArgs p =
     [''pull'', ''--untar'', ''--untardir'', ChartHome p]
     @ (if ChartVersion p \<noteq> [] then [''--version'', ChartVersion p] else [])
     @ (if ChartRepoURL p \<noteq> [] then [''--repo'', ChartRepoURL p] else [])
     @ [if ChartRepoURL p \<noteq> [] then ChartName p else ChartRepoName p @ ''/'' @ ChartName p]"
  by (simp add: getPullCommandArgs_def)

theorem getPullCommandArgs_exact_witness:
  "getPullCommandArgs (configured_plugin\<lparr>ChartRepoURL := ''https://charts.example.com''\<rparr>) =
     [''pull'', ''--untar'', ''--untardir'', ''/tmp/kustomize-1/chart'',
      ''--repo'', ''https://charts.example.com'', ''nginx'']
   \<and> getPullCommandArgs (configured_plugin\<lparr>ChartVersion := ''1.2.3''\<rparr>) =
     [''pull'', ''--untar'', ''--untardir'', ''/tmp/kustomize-1/chart'',
      ''--version'', ''1.2.3'', ''stable/nginx'']"
  using getPullCommandArgs_exact [of "configured_plugin\<lparr>ChartRepoURL := ''https://charts.example.com''\<rparr>"]
    getPullCommandArgs_exact [of "configured_plugin\<lparr>ChartVersion := ''1.2.3''\<rparr>"]
  by (simp add: configured_plugin_def)

text \<open>
  C7.  The render argument list is \<^verbatim>\<open>template\<close>, then the release name when it is not
  empty, then the join of chart home and chart name, then \<^verbatim>\<open>--namespace <ns>\<close> when the
  namespace is not empty, then \<^verbatim>\<open>--values <path>\<close> when the values path is not empty,
  then the extra arguments as they are.  For a rooted plain chart home and a plain chart
  name the join is \<^verbatim>\<open><chartHome>/<chartName>\<close>, byte for byte.
\<close>

theorem getTemplateCommandArgs_exact:
  "getTemplateCommandArgs p =
     [''template'']
     @ (if ReleaseName p \<noteq> [] then [ReleaseName p] else [])
     @ [path_Join [ChartHome p, ChartName p]]
     @ (if ReleaseNamespace p \<noteq> [] then [''--namespace'', ReleaseNamespace p] else [])
     @ (if Values p \<noteq> [] then [''--values'', Values p] else [])
     @ ExtraArgs p
   \<and> (rooted_plain (ChartHome p) \<and> plain_path (ChartName p) \<longrightarrow>
        path_Join [ChartHome p, ChartName p] = ChartHome p @ ''/'' @ ChartName p)"
  by (simp add: getTemplateCommandArgs_def path_Join2_plain)

theorem getTemplateCommandArgs_exact_witness:
  "getTemplateCommandArgs
     (configured_plugin\<lparr>ChartVersion := ''1.2.3'', ReleaseNamespace := ''prod'',
                        ExtraArgs := [''--include-crds'']\<rparr>) =
     [''template'', ''/tmp/kustomize-1/chart/nginx'', ''--namespace'', ''prod'',
      ''--values'', ''/tmp/kustomize-1/chart/nginx/values.yaml'', ''--include-crds'']"
proof -
  let ?p = "configured_plugin\<lparr>ChartVersion := ''1.2.3'', ReleaseNamespace := ''prod'',
                              ExtraArgs := [''--include-crds'']\<rparr>"
  have "rooted_plain (ChartHome ?p) \<and> plain_path (ChartName ?p)"
    using rooted_plain_examples(2) plain_path_literals(3) by (simp add: configured_plugin_def)
  with getTemplateCommandArgs_exact [of ?p] show ?thesis
    by (simp add: configured_plugin_def)
qed

text \<open>
  C8.  Whatever the body of \<^verbatim>\<open>Generate\<close> does (it returns resources, it returns the
  error of the version check, of the fetch or of the rendering, or it panics), the last
  request of the run is \<^verbatim>\<open>os.RemoveAll\<close> on the working directory, the outcome of the
  run is the outcome of the body, and afterwards nothing is left at or below the working
  directory.
\<close>

theorem Generate_removes_tmpDir:
  "trace (snd (Generate E p w)) \<noteq> []
   \<and> last (trace (snd (Generate E p w))) = RemoveAll (tmpDir p)
   \<and> fst (Generate E p w) = fst (Generate_body E p w)
   \<and> (tmpDir p \<noteq> [] \<longrightarrow> (\<forall>q. below (tmpDir p) q \<longrightarrow> fs (snd (Generate E p w)) q = None))"
  by (simp add: Generate_def os_RemoveAll_def split: prod.splits)

theorem Generate_removes_tmpDir_witness:
  "fs (world_with Directory) ''/tmp/kustomize-1/chart/nginx'' = Some Directory
   \<and> fs (snd (Generate (example_extern ''v3.2.1+g1234'') configured_plugin (world_with Directory)))
        ''/tmp/kustomize-1/chart/nginx'' = None
   \<and> fs (snd (Generate (example_extern ''v3.2.1+g1234'') configured_plugin (world_with Directory)))
        ''/tmp/kustomize-1'' = None
   \<and> fst (Generate (example_extern ''Client: v2.16.1+gbbdfe5e'') configured_plugin
            (world_with Directory))
        = Return (Inl (Error ''this plugin requires helm V3 but got v2.16.1''))
   \<and> fs (snd (Generate (example_extern ''Client: v2.16.1+gbbdfe5e'') configured_plugin
                 (world_with Directory)))
        ''/tmp/kustomize-1'' = None
   \<and> fst (Generate (example_extern ''version -c --short'') configured_plugin (world_with Directory))
        = Panic ''slice bounds out of range [1:0]''
   \<and> fs (snd (Generate (example_extern ''version -c --short'') configured_plugin (world_with Directory)))
        ''/tmp/kustomize-1'' = None"
proof -
  have t: "tmpDir configured_plugin = ''/tmp/kustomize-1''"
    by (simp add: configured_plugin_def)
  have b: "below ''/tmp/kustomize-1'' ''/tmp/kustomize-1/chart/nginx''"
      "below ''/tmp/kustomize-1'' ''/tmp/kustomize-1''"
    by (simp_all add: below_def)
  have panics: "fst (Generate_body (example_extern ''version -c --short'') configured_plugin
                     (world_with Directory)) = Panic ''slice bounds out of range [1:0]''"
    by (simp add: Generate_body_def bind_outcome_def example_gate_panics)
  have rejects: "fst (Generate_body (example_extern ''Client: v2.16.1+gbbdfe5e'') configured_plugin
                     (world_with Directory))
                   = Return (Inl (Error ''this plugin requires helm V3 but got v2.16.1''))"
    by (simp add: Generate_body_def bind_outcome_def return_outcome_def example_gate_rejects)
  from Generate_removes_tmpDir [where E = "example_extern ''v3.2.1+g1234''"
      and p = configured_plugin and w = "world_with Directory"]
    Generate_removes_tmpDir [where E = "example_extern ''Client: v2.16.1+gbbdfe5e''"
      and p = configured_plugin and w = "world_with Directory"]
    Generate_removes_tmpDir [where E = "example_extern ''version -c --short''"
      and p = configured_plugin and w = "world_with Directory"]
    t b panics rejects
  show ?thesis by (simp add: world_with_def)
qed

text \<open>
  C9.  When the configuration decodes, the working directory is allocated and the chart
  name is not empty, \<^verbatim>\<open>Config\<close> succeeds, and each of chart home, repository alias,
  renderer binary, renderer home and values path keeps its value when it was set and
  gets its default otherwise; the default of the values path is the join of the chart home
  already resolved, the chart name and \<^verbatim>\<open>values.yaml\<close>.  With chart home and values path
  unset, a rooted plain working directory and a plain chart name, the values path is
  \<^verbatim>\<open><tmpDir>/chart/<chartName>/values.yaml\<close>, byte for byte.
\<close>

theorem Config_defaults:
  assumes "yaml_Unmarshal E config (q\<lparr>helpers := hh\<rparr>) = (None, c)"
    and "TempDir E w = Inr dir"
    and "ChartName c \<noteq> []"
  shows "\<exists>p' w'. Config E q hh config w = (None, p', w')
     \<and> tmpDir p' = dir
     \<and> ChartName p' = ChartName c
     \<and> ChartHome p' = (if ChartHome c = [] then path_Join [dir, ''chart''] else ChartHome c)
     \<and> ChartRepoName p' = (if ChartRepoName c = [] then ''stable'' else ChartRepoName c)
     \<and> HelmBin p' = (if HelmBin c = [] then ''helm'' else HelmBin c)
     \<and> HelmHome p' = (if HelmHome c = [] then path_Join [dir, ''.helm''] else HelmHome c)
     \<and> Values p' = (if Values c = [] then path_Join [ChartHome p', ChartName c, ''values.yaml'']
                     else Values c)
     \<and> (ChartHome c = [] \<and> Values c = [] \<and> rooted_plain dir \<and> plain_path (ChartName c) \<longrightarrow>
          ChartHome p' = dir @ ''/chart''
          \<and> Values p' = ChartHome p' @ ''/'' @ ChartName c @ ''/values.yaml'')"
proof -
  have lit: "path_Join [dir, ''chart''] = dir @ ''/chart''
      \<and> path_Join [dir @ ''/chart'', ChartName c, ''values.yaml'']
               = dir @ ''/chart/'' @ ChartName c @ ''/values.yaml''"
    if "rooted_plain dir" "plain_path (ChartName c)"
  proof -
    have "rooted_plain (dir @ ''/'' @ ''chart'')"
      using that(1) plain_path_literals(1) by (rule rooted_plain_append)
    then show ?thesis
      using that path_Join3_plain [of "dir @ ''/'' @ ''chart''" "ChartName c" "''values.yaml''"]
      by (simp add: path_Join2_plain plain_path_literals)
  qed
  show ?thesis
    unfolding Config_success [OF assms]
    using lit by auto
qed

theorem Config_defaults_witness:
  "Config (example_extern []) example_plugin () ''nginx'' example_world =
     (None, configured_plugin,
      example_world\<lparr>fs := [''/tmp/kustomize-1'' \<mapsto> Directory],
                    trace := [MkdirTemp ''/tmp/kustomize-1'']\<rparr>)
   \<and> Values configured_plugin = ''/tmp/kustomize-1/chart/nginx/values.yaml''"
proof -
  let ?c = "example_plugin\<lparr>ChartName := ''nginx''\<rparr>"
  have 1: "yaml_Unmarshal (example_extern []) ''nginx'' (example_plugin\<lparr>helpers := ()\<rparr>)
             = (None, ?c)"
    by (simp add: example_extern_def example_plugin_def)
  have 2: "TempDir (example_extern []) example_world = Inr ''/tmp/kustomize-1''"
    by (simp add: example_extern_def)
  have 3: "ChartName ?c \<noteq> []"
    by simp
  have 4: "ChartHome ?c = [] \<and> Values ?c = [] \<and> rooted_plain ''/tmp/kustomize-1''
      \<and> plain_path (ChartName ?c)"
    using rooted_plain_examples(1) plain_path_literals(3) by (simp add: example_plugin_def)
  from Config_defaults [OF 1 2 3]
  obtain p' w' where r: "Config (example_extern []) example_plugin () ''nginx'' example_world
                          = (None, p', w')"
      and imp: "ChartHome ?c = [] \<and> Values ?c = [] \<and> rooted_plain ''/tmp/kustomize-1''
                  \<and> plain_path (ChartName ?c) \<longrightarrow>
                ChartHome p' = ''/tmp/kustomize-1'' @ ''/chart''
                \<and> Values p' = ChartHome p' @ ''/'' @ ChartName ?c @ ''/values.yaml''"
    by blast
  from imp 4 have "ChartHome p' = ''/tmp/kustomize-1'' @ ''/chart''
      \<and> Values p' = ChartHome p' @ ''/'' @ ChartName ?c @ ''/values.yaml''"
    by blast
  then have v: "Values p' = ''/tmp/kustomize-1/chart/nginx/values.yaml''"
    by simp
  have e: "Config (example_extern []) example_plugin () ''nginx'' example_world =
     (None, configured_plugin,
      example_world\<lparr>fs := [''/tmp/kustomize-1'' \<mapsto> Directory],
                    trace := [MkdirTemp ''/tmp/kustomize-1'']\<rparr>)"
    using path_Join2_plain [OF rooted_plain_examples(1) plain_path_literals(1)]
      path_Join2_plain [OF rooted_plain_examples(1), of "''.helm''"]
      path_Join3_plain [OF rooted_plain_examples(2) plain_path_literals(3) plain_path_literals(2)]
    by (simp add: Config_def NewTmpConfirmedDir_def example_extern_def example_plugin_def
        example_world_def configured_plugin_def plain_path_def plain_def)
  with r v show ?thesis by simp
qed

text \<open>
  C10.  When something that is not a directory is at the join of chart home and chart
  name in the world the version check left, the local-chart check answers false, and the
  run issues the fetch.
\<close>

theorem Generate_fetches_over_non_directory:
  assumes "checkHelmVersion E p w = (Return None, w1)"
    and "fs w1 (path_Join [ChartHome p, ChartName p]) = Some k"
    and "k \<noteq> Directory"
  shows "fst (checkLocalChart p w1) = False
     \<and> Exec (HelmBin p) (getPullCommandArgs p) (helm_environment p)
         \<in> set (issued w (snd (Generate E p w)))"
  using assms Generate_issued_after_gate [OF assms(1)]
  by (simp add: checkLocalChart_eq)

theorem Generate_fetches_over_non_directory_witness:
  "fs (world_with RegularFile) ''/tmp/kustomize-1/chart/nginx'' = Some RegularFile
   \<and> fst (checkLocalChart configured_plugin (world_with RegularFile)) = False
   \<and> Exec ''helm'' [''pull'', ''--untar'', ''--untardir'', ''/tmp/kustomize-1/chart'', ''stable/nginx'']
        (helm_environment configured_plugin)
      \<in> set (issued (world_with RegularFile)
          (snd (Generate (example_extern ''v3.2.1+g1234'') configured_plugin (world_with RegularFile))))"
proof -
  let ?w1 = "(world_with RegularFile)\<lparr>fs := fs (world_with RegularFile),
        trace := trace (world_with RegularFile) @ [Exec ''helm'' [''version'', ''-c'', ''--short'']
                             (helm_environment configured_plugin)]\<rparr>"
  have f: "fs ?w1 (path_Join [ChartHome configured_plugin, ChartName configured_plugin])
             = Some RegularFile"
    by (simp add: example_chart_path world_with_def)
  have k: "RegularFile \<noteq> Directory" by simp
  have a: "getPullCommandArgs configured_plugin =
      [''pull'', ''--untar'', ''--untardir'', ''/tmp/kustomize-1/chart'', ''stable/nginx'']"
    by (simp add: getPullCommandArgs_def configured_plugin_def)
  have b: "HelmBin configured_plugin = ''helm''" by (simp add: configured_plugin_def)
  from Generate_fetches_over_non_directory [OF example_gate_passes f k] a b
  show ?thesis by (simp add: checkLocalChart_eq example_chart_path world_with_def)
qed

end
